theory Spec2Isabelle
  imports Main "HOL-Library.Multiset"
begin

section \<open>The Drizzle PostgreSQL adapter of lucia\<close>

text \<open>
  A shallow embedding of \<^verbatim>\<open>packages/adapter-drizzle/src/drivers/postgresql.ts\<close> and of
  the record shapes of \<^verbatim>\<open>packages/lucia/src/database.ts\<close>. The adapter is a class whose
  methods build one query each on two table objects it keeps references to. Table
  objects are mutable and shared, so they live in an explicit heap; the rows of the
  database are a second component of the state.
\<close>

subsection \<open>Values and objects\<close>

text \<open>
  JavaScript values as far as the adapter handles them. Types are erased at run time, so
  a column value, a user id and a timestamp are all values; a \<^verbatim>\<open>Date\<close> is its
  time in milliseconds.
\<close>

datatype val = VUndefined | VNull | VStr string | VNum int | VBool bool | VDate int

text \<open>An object (a row, an attributes mapping) maps property names to values.\<close>

type_synonym obj = "string \<rightharpoonup> val"

text \<open>Reading a property: a property the object does not have reads as undefined.\<close>

definition read_prop :: "obj \<Rightarrow> string \<Rightarrow> val" where
  "read_prop raw k = (case raw k of None \<Rightarrow> VUndefined | Some v \<Rightarrow> v)"

text \<open>The interfaces \<^verbatim>\<open>DatabaseSession\<close> and \<^verbatim>\<open>DatabaseUser\<close> of database.ts.\<close>

record DatabaseSession =
  s_userId :: val
  s_expiresAt :: val
  s_id :: val
  s_attributes :: obj

record DatabaseUser =
  u_id :: val
  u_attributes :: obj

subsection \<open>Table objects, the heap and the store\<close>

text \<open>
  A table object carries the schema it is read from (\<^verbatim>\<open>Table.Symbol.Schema\<close>, which may
  be undefined) and its name. Its columns are addressed by their property names.
\<close>

record Table =
  table_schema :: "string option"
  table_name :: string

type_synonym ref = nat

type_synonym heap = "ref \<Rightarrow> Table"

type_synonym tkey = "string option \<times> string"

type_synonym store = "tkey \<Rightarrow> obj list"

definition table_key :: "Table \<Rightarrow> tkey" where
  "table_key t = (table_schema t, table_name t)"

datatype error = ConstraintViolation

text \<open>
  The state the adapter runs in: the heap of table objects, the rows of every table of
  the database, the columns the database defines for every table, and the constraint
  check of the database (primary key, foreign key, not null), which decides whether an
  insert is accepted. The adapter sees neither the columns nor the check.
\<close>

record world =
  tables :: heap
  rows :: store
  columns :: "tkey \<Rightarrow> string list"
  accepts :: "store \<Rightarrow> tkey \<Rightarrow> obj \<Rightarrow> bool"

subsection \<open>The query layer\<close>

text \<open>
  Modelled from the spec: the query builder \<^verbatim>\<open>drizzle-orm\<close> and the database behind it
  are not part of the repository. The spec (sections 1 and 6) takes them as a black box
  that offers select, insert, update with a filter, delete with a filter, an inner join,
  and the predicates equality and less-than-or-equal. A table is the list of its rows in
  insertion order; a query addresses the table by the schema and the name its table
  object holds when the query runs. A table has a fixed set of columns, defined by the
  store (sections 3 and 9): the three reserved columns and the additional ones.
\<close>

text \<open>SQL equality: an absent value equals nothing.\<close>

definition sql_eq :: "val \<Rightarrow> val \<Rightarrow> bool" where
  "sql_eq a b = (a = b \<and> a \<noteq> VNull \<and> a \<noteq> VUndefined)"

text \<open>Less-than-or-equal on timestamps; it holds of nothing that is not a timestamp.\<close>

fun sql_lte :: "val \<Rightarrow> val \<Rightarrow> bool" where
  "sql_lte (VDate x) (VDate y) = (x \<le> y)"
| "sql_lte _ _ = False"

definition db_select :: "store \<Rightarrow> Table \<Rightarrow> (obj \<Rightarrow> bool) \<Rightarrow> obj list" where
  "db_select st t p = filter p (st (table_key t))"

text \<open>The rows of \<^verbatim>\<open>select({user: userTable, session: sessionTable})\<close>.\<close>

record joined =
  j_user :: obj
  j_session :: obj

definition db_select_join ::
  "store \<Rightarrow> Table \<Rightarrow> Table \<Rightarrow> (obj \<Rightarrow> obj \<Rightarrow> bool) \<Rightarrow> (obj \<Rightarrow> bool) \<Rightarrow> joined list" where
  "db_select_join st ts tu on p =
     concat (map (\<lambda>s. map (\<lambda>u. \<lparr>j_user = u, j_session = s\<rparr>)
                          (filter (\<lambda>u. on s u \<and> p s) (st (table_key tu))))
                 (st (table_key ts)))"

text \<open>
  The row a table keeps of the values it is given: one value for every column of the
  table, null where the values have none or an undefined one, and nothing for a name
  that is no column.
\<close>

definition stored_row :: "string list \<Rightarrow> obj \<Rightarrow> obj" where
  "stored_row cols r =
     (\<lambda>c. if c \<in> set cols
          then Some (case r c of None \<Rightarrow> VNull
                     | Some v \<Rightarrow> if v = VUndefined then VNull else v)
          else None)"

definition db_insert ::
  "(store \<Rightarrow> tkey \<Rightarrow> obj \<Rightarrow> bool) \<Rightarrow> (tkey \<Rightarrow> string list) \<Rightarrow> store \<Rightarrow> Table \<Rightarrow> obj
     \<Rightarrow> error + store" where
  "db_insert ok cols st t r =
     (if ok st (table_key t) (stored_row (cols (table_key t)) r)
      then Inr (st(table_key t := st (table_key t) @ [stored_row (cols (table_key t)) r]))
      else Inl ConstraintViolation)"

definition db_update :: "store \<Rightarrow> Table \<Rightarrow> obj \<Rightarrow> (obj \<Rightarrow> bool) \<Rightarrow> store" where
  "db_update st t upd p =
     st(table_key t := map (\<lambda>r. if p r then r ++ upd else r) (st (table_key t)))"

definition db_delete :: "store \<Rightarrow> Table \<Rightarrow> (obj \<Rightarrow> bool) \<Rightarrow> store" where
  "db_delete st t p = st(table_key t := filter (\<lambda>r. \<not> p r) (st (table_key t)))"

subsection \<open>The adapter\<close>

text \<open>
  \<^verbatim>\<open>dynamicSchema\<close> assigns the schema to the table object it is given and returns that
  same object.
\<close>

definition dynamicSchema :: "heap \<Rightarrow> ref \<Rightarrow> string \<Rightarrow> heap \<times> ref" where
  "dynamicSchema h table schema =
     (h(table := (h table)\<lparr>table_schema := Some schema\<rparr>), table)"

text \<open>The fields of the class; \<^verbatim>\<open>db\<close> is the connection to the store of the state.\<close>

record DrizzlePostgreSQLAdapter =
  sessionTable :: ref
  userTable :: ref
  defaultSchema :: string

definition new_adapter :: "ref \<Rightarrow> ref \<Rightarrow> string \<Rightarrow> DrizzlePostgreSQLAdapter" where
  "new_adapter st ut ds = \<lparr>sessionTable = st, userTable = ut, defaultSchema = ds\<rparr>"

text \<open>
  The optional argument \<^verbatim>\<open>schema\<close> is tested for truthiness: undefined and the empty
  string both take the second branch.
\<close>

definition getSessionTable ::
  "DrizzlePostgreSQLAdapter \<Rightarrow> heap \<Rightarrow> string option \<Rightarrow> heap \<times> ref" where
  "getSessionTable this h schema =
     (case schema of
        None \<Rightarrow> (h, sessionTable this)
      | Some s \<Rightarrow> if s \<noteq> [] then dynamicSchema h (sessionTable this) s
                  else (h, sessionTable this))"

definition getUserTable ::
  "DrizzlePostgreSQLAdapter \<Rightarrow> heap \<Rightarrow> string option \<Rightarrow> heap \<times> ref" where
  "getUserTable this h schema =
     (case schema of
        None \<Rightarrow> (h, userTable this)
      | Some s \<Rightarrow> if s \<noteq> [] then dynamicSchema h (userTable this) s
                  else (h, userTable this))"

text \<open>Destructuring with a rest pattern: the named properties, and all the others.\<close>

definition transformIntoDatabaseSession :: "obj \<Rightarrow> DatabaseSession" where
  "transformIntoDatabaseSession raw =
     \<lparr>s_userId = read_prop raw ''userId'', s_expiresAt = read_prop raw ''expiresAt'',
      s_id = read_prop raw ''id'',
      s_attributes = raw |` (- {''id'', ''userId'', ''expiresAt''})\<rparr>"

definition transformIntoDatabaseUser :: "obj \<Rightarrow> DatabaseUser" where
  "transformIntoDatabaseUser raw =
     \<lparr>u_id = read_prop raw ''id'', u_attributes = raw |` (- {''id''})\<rparr>"

definition deleteSession ::
  "DrizzlePostgreSQLAdapter \<Rightarrow> string \<Rightarrow> string option \<Rightarrow> world \<Rightarrow> world" where
  "deleteSession this sessionId schema w =
     (case getSessionTable this (tables w) schema of
        (h, sessionTbl) \<Rightarrow>
          w\<lparr>tables := h,
            rows := db_delete (rows w) (h sessionTbl)
                      (\<lambda>r. sql_eq (read_prop r ''id'') (VStr sessionId))\<rparr>)"

definition deleteUserSessions ::
  "DrizzlePostgreSQLAdapter \<Rightarrow> val \<Rightarrow> string option \<Rightarrow> world \<Rightarrow> world" where
  "deleteUserSessions this userId schema w =
     (case getSessionTable this (tables w) schema of
        (h, sessionTbl) \<Rightarrow>
          w\<lparr>tables := h,
            rows := db_delete (rows w) (h sessionTbl)
                      (\<lambda>r. sql_eq (read_prop r ''userId'') userId)\<rparr>)"

definition getSessionAndUser ::
  "DrizzlePostgreSQLAdapter \<Rightarrow> string \<Rightarrow> string option \<Rightarrow> world
     \<Rightarrow> world \<times> (DatabaseSession option \<times> DatabaseUser option)" where
  "getSessionAndUser this sessionId schema w =
     (case getSessionTable this (tables w) schema of
        (h1, sessionTbl) \<Rightarrow>
          (case getUserTable this h1 schema of
             (h2, userTbl) \<Rightarrow>
               (w\<lparr>tables := h2\<rparr>,
                case db_select_join (rows w) (h2 sessionTbl) (h2 userTbl)
                       (\<lambda>s u. sql_eq (read_prop s ''userId'') (read_prop u ''id''))
                       (\<lambda>s. sql_eq (read_prop s ''id'') (VStr sessionId)) of
                  [r] \<Rightarrow> (Some (transformIntoDatabaseSession (j_session r)),
                          Some (transformIntoDatabaseUser (j_user r)))
                | _ \<Rightarrow> (None, None))))"

definition getUserSessions ::
  "DrizzlePostgreSQLAdapter \<Rightarrow> val \<Rightarrow> string option \<Rightarrow> world
     \<Rightarrow> world \<times> DatabaseSession list" where
  "getUserSessions this userId schema w =
     (case getSessionTable this (tables w) schema of
        (h, sessionTbl) \<Rightarrow>
          (w\<lparr>tables := h\<rparr>,
           map transformIntoDatabaseSession
             (db_select (rows w) (h sessionTbl)
                (\<lambda>r. sql_eq (read_prop r ''userId'') userId))))"

text \<open>
  The object literal of \<^verbatim>\<open>setSession\<close>: the three named properties first, then the
  spread of the attributes, which overwrites a property already there.
\<close>

definition sessionValues :: "DatabaseSession \<Rightarrow> obj" where
  "sessionValues session =
     [''id'' \<mapsto> s_id session, ''userId'' \<mapsto> s_userId session,
      ''expiresAt'' \<mapsto> s_expiresAt session] ++ s_attributes session"

text \<open>
  When the store rejects the insert, the call throws after \<^verbatim>\<open>getSessionTable\<close> has run:
  the error comes with the state in which the table object holds the schema of the call.
\<close>

definition setSession ::
  "DrizzlePostgreSQLAdapter \<Rightarrow> DatabaseSession \<Rightarrow> string option \<Rightarrow> world
     \<Rightarrow> (error \<times> world) + world" where
  "setSession this session schema w =
     (case getSessionTable this (tables w) schema of
        (h, sessionTbl) \<Rightarrow>
          (case db_insert (accepts w) (columns w) (rows w) (h sessionTbl)
                  (sessionValues session) of
             Inl e \<Rightarrow> Inl (e, w\<lparr>tables := h\<rparr>)
           | Inr st \<Rightarrow> Inr (w\<lparr>tables := h, rows := st\<rparr>)))"

definition updateSessionExpiration ::
  "DrizzlePostgreSQLAdapter \<Rightarrow> string \<Rightarrow> val \<Rightarrow> string option \<Rightarrow> world \<Rightarrow> world" where
  "updateSessionExpiration this sessionId expiresAt schema w =
     (case getSessionTable this (tables w) schema of
        (h, sessionTbl) \<Rightarrow>
          w\<lparr>tables := h,
            rows := db_update (rows w) (h sessionTbl) [''expiresAt'' \<mapsto> expiresAt]
                      (\<lambda>r. sql_eq (read_prop r ''id'') (VStr sessionId))\<rparr>)"

text \<open>\<^verbatim>\<open>new Date()\<close> reads the clock; the time read is the argument \<open>now\<close>.\<close>

definition deleteExpiredSessions ::
  "DrizzlePostgreSQLAdapter \<Rightarrow> int \<Rightarrow> string option \<Rightarrow> world \<Rightarrow> world" where
  "deleteExpiredSessions this now schema w =
     (case getSessionTable this (tables w) schema of
        (h, sessionTbl) \<Rightarrow>
          w\<lparr>tables := h,
            rows := db_delete (rows w) (h sessionTbl)
                      (\<lambda>r. sql_lte (read_prop r ''expiresAt'') (VDate now))\<rparr>)"

subsection \<open>The table a call reads and writes\<close>

text \<open>
  The key of the table that a call with the argument \<open>schema\<close> addresses, read off the
  table object that \<^verbatim>\<open>getSessionTable\<close> (\<^verbatim>\<open>getUserTable\<close>) returns in state \<open>w\<close>.
\<close>

definition sessionTarget :: "DrizzlePostgreSQLAdapter \<Rightarrow> world \<Rightarrow> string option \<Rightarrow> tkey" where
  "sessionTarget this w schema =
     (case getSessionTable this (tables w) schema of (h, t) \<Rightarrow> table_key (h t))"

definition userTarget :: "DrizzlePostgreSQLAdapter \<Rightarrow> world \<Rightarrow> string option \<Rightarrow> tkey" where
  "userTarget this w schema =
     (case getUserTable this (tables w) schema of (h, t) \<Rightarrow> table_key (h t))"

subsection \<open>A small database\<close>

text \<open>
  An adapter built on two table objects of the schema \<open>public\<close>, with that schema as its
  default, over a store with the same two tables in the schemas \<open>public\<close> and \<open>tenant\<close>.
  A session table has the additional column \<open>ip\<close>, a user table the additional column
  \<open>name\<close>. The store checks the primary key of a row it is asked to insert.
\<close>

definition adapter0 :: DrizzlePostgreSQLAdapter where
  "adapter0 = new_adapter 0 1 ''public''"

definition heap0 :: heap where
  "heap0 = (\<lambda>_. \<lparr>table_schema = Some ''public'', table_name = ''user''\<rparr>)
             (0 := \<lparr>table_schema = Some ''public'', table_name = ''session''\<rparr>)"

definition session1 :: obj where
  "session1 = [''id'' \<mapsto> VStr ''s1'', ''userId'' \<mapsto> VStr ''u1'', ''expiresAt'' \<mapsto> VDate 1000,
               ''ip'' \<mapsto> VNull]"

definition session2 :: obj where
  "session2 = [''id'' \<mapsto> VStr ''s2'', ''userId'' \<mapsto> VStr ''u1'', ''expiresAt'' \<mapsto> VDate 5000,
               ''ip'' \<mapsto> VStr ''::1'']"

definition user1 :: obj where
  "user1 = [''id'' \<mapsto> VStr ''u1'', ''name'' \<mapsto> VStr ''a'']"

definition primary_key :: "store \<Rightarrow> tkey \<Rightarrow> obj \<Rightarrow> bool" where
  "primary_key st k r =
     (filter (\<lambda>r'. sql_eq (read_prop r' ''id'') (read_prop r ''id'')) (st k) = [])"

definition store0 :: store where
  "store0 = (\<lambda>_. [])
     ((Some ''public'', ''session'') := [session1, session2],
      (Some ''public'', ''user'') := [user1],
      (Some ''tenant'', ''session'') := [session1],
      (Some ''tenant'', ''user'') := [user1])"

definition columns0 :: "tkey \<Rightarrow> string list" where
  "columns0 k = (if snd k = ''session'' then [''id'', ''userId'', ''expiresAt'', ''ip'']
                 else [''id'', ''name''])"

definition world0 :: world where
  "world0 = \<lparr>tables = heap0, rows = store0, columns = columns0, accepts = primary_key\<rparr>"



definition session_evil :: DatabaseSession where
  "session_evil = \<lparr>s_userId = VStr ''u1'', s_expiresAt = VDate 9000, s_id = VStr ''s3'',
                    s_attributes = [''id'' \<mapsto> VStr ''s7'']\<rparr>"

text \<open>
  A session whose attribute \<open>id\<close> is the id of a stored session, and the row the store
  keeps of the session without attributes.
\<close>

definition session_clash :: DatabaseSession where
  "session_clash = \<lparr>s_userId = VStr ''u1'', s_expiresAt = VDate 9000, s_id = VStr ''s5'',
                     s_attributes = [''id'' \<mapsto> VStr ''s1'']\<rparr>"

definition row4 :: obj where
  "row4 = [''id'' \<mapsto> VStr ''s4'', ''userId'' \<mapsto> VStr ''u1'', ''expiresAt'' \<mapsto> VDate 9000,
           ''ip'' \<mapsto> VNull]"

section \<open>Properties\<close>

subsection \<open>Auxiliary facts\<close>

lemma join_inner:
  "map (\<lambda>u. \<lparr>j_user = u, j_session = s\<rparr>) (filter (\<lambda>u. on s u \<and> p s) us) =
   map (\<lambda>(s, u). \<lparr>j_user = u, j_session = s\<rparr>)
     (concat (map (\<lambda>u. if on s u \<and> p s then [(s, u)] else []) us))"
  by (induction us) auto

lemma db_select_join_comprehension:
  "db_select_join st ts tu on p =
     map (\<lambda>(s, u). \<lparr>j_user = u, j_session = s\<rparr>)
       [(s, u). s \<leftarrow> st (table_key ts), u \<leftarrow> st (table_key tu), on s u \<and> p s]"
  unfolding db_select_join_def
  by (induction "st (table_key ts)") (simp_all add: join_inner map_concat comp_def)

lemma getSessionAndUser_result:
  "snd (getSessionAndUser this sessionId schema w) =
     (case db_select_join (rows w)
             \<lparr>table_schema = fst (sessionTarget this w schema),
              table_name = snd (sessionTarget this w schema)\<rparr>
             \<lparr>table_schema = fst (userTarget this w schema),
              table_name = snd (userTarget this w schema)\<rparr>
             (\<lambda>s u. sql_eq (read_prop s ''userId'') (read_prop u ''id''))
             (\<lambda>s. sql_eq (read_prop s ''id'') (VStr sessionId)) of
        [r] \<Rightarrow> (Some (transformIntoDatabaseSession (j_session r)),
                Some (transformIntoDatabaseUser (j_user r)))
      | _ \<Rightarrow> (None, None))"
  by (auto simp add: getSessionAndUser_def sessionTarget_def userTarget_def getSessionTable_def
      getUserTable_def dynamicSchema_def db_select_join_def table_key_def split: option.splits)

lemma sessionTarget0 [simp]: "sessionTarget adapter0 world0 None = (Some ''public'', ''session'')"
  by (simp add: sessionTarget_def getSessionTable_def adapter0_def new_adapter_def world0_def
      heap0_def table_key_def)

lemma userTarget0 [simp]: "userTarget adapter0 world0 None = (Some ''public'', ''user'')"
  by (simp add: userTarget_def getUserTable_def adapter0_def new_adapter_def world0_def
      heap0_def table_key_def)

lemma rows0 [simp]:
  "rows world0 (Some ''public'', ''session'') = [session1, session2]"
  "rows world0 (Some ''public'', ''user'') = [user1]"
  "rows world0 (Some ''tenant'', ''session'') = [session1]"
  "rows world0 (Some ''tenant'', ''user'') = [user1]"
  by (simp_all add: world0_def store0_def)

lemma read0 [simp]:
  "read_prop session1 ''id'' = VStr ''s1''" "read_prop session1 ''userId'' = VStr ''u1''"
  "read_prop session1 ''expiresAt'' = VDate 1000"
  "read_prop session2 ''id'' = VStr ''s2''" "read_prop session2 ''userId'' = VStr ''u1''"
  "read_prop session2 ''expiresAt'' = VDate 5000"
  "read_prop user1 ''id'' = VStr ''u1''"
  by (simp_all add: read_prop_def session1_def session2_def user1_def)

lemma tables_getUserSessions0:
  "tables (fst (getUserSessions adapter0 (VStr ''u1'') (Some ''tenant'') world0)) =
     heap0(0 := \<lparr>table_schema = Some ''tenant'', table_name = ''session''\<rparr>)"
  by (simp add: getUserSessions_def getSessionTable_def dynamicSchema_def adapter0_def
      new_adapter_def world0_def heap0_def)

lemma rows_getUserSessions: "rows (fst (getUserSessions this userId schema w)) = rows w"
  by (simp add: getUserSessions_def split: prod.splits)

lemma getSessionAndUser_case:
  "snd (getSessionAndUser this sessionId schema w) =
     (case map (\<lambda>(s, u). \<lparr>j_user = u, j_session = s\<rparr>)
             [(s, u). s \<leftarrow> rows w (sessionTarget this w schema),
                      u \<leftarrow> rows w (userTarget this w schema),
                      sql_eq (read_prop s ''userId'') (read_prop u ''id'')
                      \<and> sql_eq (read_prop s ''id'') (VStr sessionId)] of
        [r] \<Rightarrow> (Some (transformIntoDatabaseSession (j_session r)),
                Some (transformIntoDatabaseUser (j_user r)))
      | _ \<Rightarrow> (None, None))"
  unfolding getSessionAndUser_result db_select_join_comprehension
  by (simp add: table_key_def)

lemma dom_session_attributes:
  "dom (s_attributes (transformIntoDatabaseSession raw)) = dom raw - {''id'', ''userId'', ''expiresAt''}"
  by (simp add: transformIntoDatabaseSession_def Diff_eq)

lemma dom_user_attributes:
  "dom (u_attributes (transformIntoDatabaseUser raw)) = dom raw - {''id''}"
  by (simp add: transformIntoDatabaseUser_def Diff_eq)

lemma case_one_row_Some:
  "(case xs of [r] \<Rightarrow> (Some (f r), Some (g r)) | _ \<Rightarrow> (None, None)) = (Some s, Some u)
   \<Longrightarrow> \<exists>r. xs = [r] \<and> s = f r \<and> u = g r"
  by (cases xs; simp split: list.splits)

lemma getSessionAndUser_Some:
  "snd (getSessionAndUser this sessionId schema w) = (Some s, Some u) \<Longrightarrow>
   \<exists>rs ru. s = transformIntoDatabaseSession rs \<and> u = transformIntoDatabaseUser ru"
  unfolding getSessionAndUser_case by (drule case_one_row_Some) blast

lemma getUserSessions_image:
  "s \<in> set (snd (getUserSessions this userId schema w)) \<Longrightarrow>
   \<exists>rs. s = transformIntoDatabaseSession rs"
  by (auto simp add: getUserSessions_def split: prod.splits)

lemma getUserSessions0:
  "snd (getUserSessions adapter0 (VStr ''u1'') None world0) =
    [transformIntoDatabaseSession session1, transformIntoDatabaseSession session2]"
  by (simp add: getUserSessions_def getSessionTable_def db_select_def table_key_def sql_eq_def
        adapter0_def new_adapter_def world0_def heap0_def store0_def)

lemma getSessionAndUser0:
  "snd (getSessionAndUser adapter0 ''s2'' None world0) =
     (Some (transformIntoDatabaseSession session2), Some (transformIntoDatabaseUser user1))"
  unfolding getSessionAndUser_case by (simp add: sql_eq_def)


lemma updateSessionExpiration_rows:
  "rows (updateSessionExpiration this sessionId t schema w) =
     (rows w)(sessionTarget this w schema :=
        map (\<lambda>r. if sql_eq (read_prop r ''id'') (VStr sessionId) then r(''expiresAt'' \<mapsto> t) else r)
          (rows w (sessionTarget this w schema)))"
  by (simp add: updateSessionExpiration_def sessionTarget_def db_update_def
      split: prod.splits cong: if_cong)

lemma map_unchanged: "(\<forall>r \<in> set xs. \<not> p r) \<Longrightarrow> map (\<lambda>r. if p r then f r else r) xs = xs"
  by (induction xs) auto

lemma session1_neq_session2 [simp]: "session1 \<noteq> session2"
proof
  assume "session1 = session2"
  then have "read_prop session1 ''id'' = read_prop session2 ''id''" by simp
  then show False by simp
qed

lemma sql_lte_date: "sql_lte v (VDate now) = (\<exists>e. v = VDate e \<and> e \<le> now)"
  by (cases v) simp_all

lemma sql_eq_str: "sql_eq v (VStr s) = (v = VStr s)"
  by (auto simp add: sql_eq_def)

lemma deleteExpiredSessions_rows:
  "rows (deleteExpiredSessions this now schema w) =
     (rows w)(sessionTarget this w schema :=
        filter (\<lambda>r. \<not> (\<exists>e. read_prop r ''expiresAt'' = VDate e \<and> e \<le> now))
          (rows w (sessionTarget this w schema)))"
  by (simp add: deleteExpiredSessions_def sessionTarget_def db_delete_def sql_lte_date
      split: prod.splits)

lemma getUserSessions_result:
  "snd (getUserSessions this userId schema w) =
     map transformIntoDatabaseSession
       (filter (\<lambda>r. sql_eq (read_prop r ''userId'') userId) (rows w (sessionTarget this w schema)))"
  by (simp add: getUserSessions_def sessionTarget_def db_select_def split: prod.splits)

lemma sql_eq_present: "b \<noteq> VNull \<Longrightarrow> b \<noteq> VUndefined \<Longrightarrow> sql_eq a b = (a = b)"
  by (auto simp add: sql_eq_def)

lemma sessionTarget_again:
  "tables w1 = fst (getSessionTable this (tables w) schema) \<Longrightarrow>
   sessionTarget this w1 schema = sessionTarget this w schema"
  by (auto simp add: sessionTarget_def getSessionTable_def dynamicSchema_def table_key_def
      split: option.splits)


lemma tables_deleteSession:
  "tables (deleteSession this sessionId schema w) = fst (getSessionTable this (tables w) schema)"
  by (simp add: deleteSession_def split: prod.splits)

lemma deleteSession_rows:
  "rows (deleteSession this sessionId schema w) =
     (rows w)(sessionTarget this w schema :=
        filter (\<lambda>r. read_prop r ''id'' \<noteq> VStr sessionId) (rows w (sessionTarget this w schema)))"
  by (simp add: deleteSession_def sessionTarget_def db_delete_def sql_eq_str split: prod.splits)

lemma join_no_session:
  "(\<forall>s \<in> set xs. \<not> q s) \<Longrightarrow> [(s, u). s \<leftarrow> xs, u \<leftarrow> ys, on s u \<and> q s] = []"
  by (induction xs) simp_all






lemma setSession_accepted:
  "accepts w (rows w) (sessionTarget this w schema)
     (stored_row (columns w (sessionTarget this w schema)) (sessionValues S)) \<Longrightarrow>
   setSession this S schema w =
     Inr (w\<lparr>tables := fst (getSessionTable this (tables w) schema),
            rows := (rows w)(sessionTarget this w schema :=
                      rows w (sessionTarget this w schema)
                      @ [stored_row (columns w (sessionTarget this w schema)) (sessionValues S)])\<rparr>)"
  by (cases "getSessionTable this (tables w) schema")
    (simp add: setSession_def sessionTarget_def db_insert_def)

lemma setSession_rejected:
  "\<not> accepts w (rows w) (sessionTarget this w schema)
     (stored_row (columns w (sessionTarget this w schema)) (sessionValues S)) \<Longrightarrow>
   setSession this S schema w =
     Inl (ConstraintViolation, w\<lparr>tables := fst (getSessionTable this (tables w) schema)\<rparr>)"
  by (cases "getSessionTable this (tables w) schema")
    (simp add: setSession_def sessionTarget_def db_insert_def)

lemma sessionValues_exact:
  "sessionValues S c =
     (case s_attributes S c of
        Some v \<Rightarrow> Some v
      | None \<Rightarrow> if c = ''id'' then Some (s_id S)
                else if c = ''userId'' then Some (s_userId S)
                else if c = ''expiresAt'' then Some (s_expiresAt S)
                else None)"
  by (simp add: sessionValues_def map_add_def split: option.splits)




lemma columns_session0 [simp]:
  "columns world0 (Some ''public'', ''session'') = [''id'', ''userId'', ''expiresAt'', ''ip'']"
  by (simp add: world0_def columns0_def)

lemma accepts0 [simp]: "accepts world0 = primary_key"
  by (simp add: world0_def)




lemma read4 [simp]:
  "read_prop row4 ''id'' = VStr ''s4''" "read_prop row4 ''userId'' = VStr ''u1''"
  "read_prop row4 ''expiresAt'' = VDate 9000"
  by (simp_all add: read_prop_def row4_def)




subsection \<open>Redirecting a table to a schema\<close>

text \<open>
  C1 (the code departs from the claim). The claim: a call with a schema argument works on
  a copy of the base table object, and the object the adapter keeps is the same after the
  call. In the code \<^verbatim>\<open>dynamicSchema\<close> assigns the schema to the object it is given, which
  is the adapter's own. Evaluated on the small database: before the call the session
  table object of the adapter reads from \<open>public\<close>; after \<^verbatim>\<open>deleteSession("s1", "tenant")\<close>
  the same object reads from \<open>tenant\<close>.
\<close>

theorem deleteSession_schema_overwrites_base_table:
  "tables world0 (sessionTable adapter0) = \<lparr>table_schema = Some ''public'', table_name = ''session''\<rparr>
   \<and> tables (deleteSession adapter0 ''s1'' (Some ''tenant'') world0) (sessionTable adapter0)
       = \<lparr>table_schema = Some ''tenant'', table_name = ''session''\<rparr>
   \<and> fst (dynamicSchema heap0 0 ''tenant'') 0 \<noteq> heap0 0"
  by (simp add: deleteSession_def getSessionTable_def dynamicSchema_def adapter0_def
      new_adapter_def world0_def heap0_def)

subsection \<open>Calls without a schema\<close>

text \<open>
  C2 (the code departs from the claim). The claim: a call without a schema argument
  addresses the default schema given to the constructor, whatever schema earlier calls
  were given. The code never reads the field \<^verbatim>\<open>defaultSchema\<close>; such a call addresses the
  schema the table object holds at that moment. Evaluated on the small database, whose
  default schema is \<open>public\<close>: on the fresh adapter \<^verbatim>\<open>deleteSession("s1")\<close> removes the session
  from \<open>public\<close>; after \<^verbatim>\<open>getUserSessions("u1", "tenant")\<close> the same call leaves the table of
  \<open>public\<close> as it was and empties the one of \<open>tenant\<close>.
\<close>

theorem deleteSession_without_schema_after_redirect:
  "defaultSchema adapter0 = ''public''
   \<and> rows (deleteSession adapter0 ''s1'' None world0) (Some ''public'', ''session'') = [session2]
   \<and> rows (deleteSession adapter0 ''s1'' None
         (fst (getUserSessions adapter0 (VStr ''u1'') (Some ''tenant'') world0)))
       (Some ''public'', ''session'') = [session1, session2]
   \<and> rows (deleteSession adapter0 ''s1'' None
         (fst (getUserSessions adapter0 (VStr ''u1'') (Some ''tenant'') world0)))
       (Some ''tenant'', ''session'') = []"
proof -
  have a: "defaultSchema adapter0 = ''public''"
    by (simp add: adapter0_def new_adapter_def)
  have b: "rows (deleteSession adapter0 ''s1'' None world0) (Some ''public'', ''session'') = [session2]"
    by (simp add: deleteSession_def getSessionTable_def db_delete_def table_key_def sql_eq_def
        adapter0_def new_adapter_def world0_def heap0_def store0_def)
  have c: "rows (deleteSession adapter0 ''s1'' None
         (fst (getUserSessions adapter0 (VStr ''u1'') (Some ''tenant'') world0)))
       (Some ''public'', ''session'') = [session1, session2]"
    by (simp add: deleteSession_def getSessionTable_def db_delete_def table_key_def
        tables_getUserSessions0 rows_getUserSessions)
      (simp add: adapter0_def new_adapter_def)
  have d: "rows (deleteSession adapter0 ''s1'' None
         (fst (getUserSessions adapter0 (VStr ''u1'') (Some ''tenant'') world0)))
       (Some ''tenant'', ''session'') = []"
    by (simp add: deleteSession_def getSessionTable_def db_delete_def table_key_def
        tables_getUserSessions0 rows_getUserSessions)
      (simp add: adapter0_def new_adapter_def sql_eq_def)
  from a b c d show ?thesis by blast
qed

subsection \<open>Looking a session up\<close>

text \<open>
  C3. Let \<open>J\<close> be the inner join of the session table and the user table on
  \<open>session.userId = user.id\<close>, filtered by \<open>session.id = sessionId\<close>. When \<open>J\<close> is the one
  row \<open>(s, u)\<close>, \<^verbatim>\<open>getSessionAndUser\<close> returns the session made of the columns \<open>id\<close>,
  \<open>userId\<close>, \<open>expiresAt\<close> of \<open>s\<close> with the other columns of \<open>s\<close> as attributes, and the
  user made of the column \<open>id\<close> of \<open>u\<close> with the other columns of \<open>u\<close> as attributes. When
  \<open>J\<close> has no row or more than one, it returns the pair of absent values. Both are
  present exactly when \<open>J\<close> has one row. The call is a total function of the state, with
  no error among its results, and it leaves the rows of the store as they are.
\<close>

theorem getSessionAndUser_one_row:
  fixes this sessionId schema w
  defines "J \<equiv> [(s, u). s \<leftarrow> rows w (sessionTarget this w schema),
                         u \<leftarrow> rows w (userTarget this w schema),
                         sql_eq (read_prop s ''userId'') (read_prop u ''id'')
                         \<and> sql_eq (read_prop s ''id'') (VStr sessionId)]"
  shows "(\<forall>s u. J = [(s, u)] \<longrightarrow>
            snd (getSessionAndUser this sessionId schema w) =
              (Some \<lparr>s_userId = read_prop s ''userId'', s_expiresAt = read_prop s ''expiresAt'',
                     s_id = read_prop s ''id'',
                     s_attributes = s |` (- {''id'', ''userId'', ''expiresAt''})\<rparr>,
               Some \<lparr>u_id = read_prop u ''id'', u_attributes = u |` (- {''id''})\<rparr>))
       \<and> (length J \<noteq> 1 \<longrightarrow> snd (getSessionAndUser this sessionId schema w) = (None, None))
       \<and> (length J = 1 \<longleftrightarrow>
            fst (snd (getSessionAndUser this sessionId schema w)) \<noteq> None
            \<and> snd (snd (getSessionAndUser this sessionId schema w)) \<noteq> None)
       \<and> rows (fst (getSessionAndUser this sessionId schema w)) = rows w"
proof -
  have r: "snd (getSessionAndUser this sessionId schema w) =
     (case map (\<lambda>(s, u). \<lparr>j_user = u, j_session = s\<rparr>) J of
        [r] \<Rightarrow> (Some (transformIntoDatabaseSession (j_session r)),
                Some (transformIntoDatabaseUser (j_user r)))
      | _ \<Rightarrow> (None, None))"
    unfolding J_def getSessionAndUser_result db_select_join_comprehension
    by (simp add: table_key_def)
  have a: "\<forall>s u. J = [(s, u)] \<longrightarrow>
            snd (getSessionAndUser this sessionId schema w) =
              (Some \<lparr>s_userId = read_prop s ''userId'', s_expiresAt = read_prop s ''expiresAt'',
                     s_id = read_prop s ''id'',
                     s_attributes = s |` (- {''id'', ''userId'', ''expiresAt''})\<rparr>,
               Some \<lparr>u_id = read_prop u ''id'', u_attributes = u |` (- {''id''})\<rparr>)"
    by (simp add: r transformIntoDatabaseSession_def transformIntoDatabaseUser_def)
  have b: "length J \<noteq> 1 \<longrightarrow> snd (getSessionAndUser this sessionId schema w) = (None, None)"
    by (cases J) (auto simp add: r split: list.splits)
  have c: "length J = 1 \<longleftrightarrow>
            fst (snd (getSessionAndUser this sessionId schema w)) \<noteq> None
            \<and> snd (snd (getSessionAndUser this sessionId schema w)) \<noteq> None"
    by (cases J) (auto simp add: r split: list.splits)
  have d: "rows (fst (getSessionAndUser this sessionId schema w)) = rows w"
    by (simp add: getSessionAndUser_def split: prod.splits)
  from a b c d show ?thesis by blast
qed

theorem getSessionAndUser_one_row_witness:
  "snd (getSessionAndUser adapter0 ''s1'' None world0) =
     (Some \<lparr>s_userId = VStr ''u1'', s_expiresAt = VDate 1000, s_id = VStr ''s1'',
            s_attributes = session1 |` (- {''id'', ''userId'', ''expiresAt''})\<rparr>,
      Some \<lparr>u_id = VStr ''u1'', u_attributes = user1 |` (- {''id''})\<rparr>)
   \<and> snd (getSessionAndUser adapter0 ''s9'' None world0) = (None, None)"
  using getSessionAndUser_one_row
      [where this = adapter0 and w = world0 and schema = None and sessionId = "''s1''"]
    getSessionAndUser_one_row
      [where this = adapter0 and w = world0 and schema = None and sessionId = "''s9''"]
  by (simp add: sql_eq_def)

subsection \<open>Inserting a session and reading it back\<close>




subsection \<open>Moving the expiry of a session\<close>

text \<open>
  C5. \<^verbatim>\<open>updateSessionExpiration\<close> keeps the number of rows of the session table. A row whose
  id is \<open>sessionId\<close> gets \<open>expiresAt = t\<close> and keeps every other column; a row with another
  id stays as it is; every other table stays as it is. When no row has that id the rows
  of the store are unchanged: no row is created. The call is a total function of the
  state, with no error among its results.
\<close>

theorem updateSessionExpiration_frame:
  fixes this sessionId t schema w
  defines "k \<equiv> sessionTarget this w schema"
    and "w' \<equiv> updateSessionExpiration this sessionId t schema w"
  shows "length (rows w' k) = length (rows w k)
    \<and> (\<forall>i < length (rows w k).
          (sql_eq (read_prop (rows w k ! i) ''id'') (VStr sessionId) \<longrightarrow>
             read_prop (rows w' k ! i) ''expiresAt'' = t
             \<and> (\<forall>c. c \<noteq> ''expiresAt'' \<longrightarrow> (rows w' k ! i) c = (rows w k ! i) c))
          \<and> (\<not> sql_eq (read_prop (rows w k ! i) ''id'') (VStr sessionId) \<longrightarrow>
               rows w' k ! i = rows w k ! i))
    \<and> (\<forall>k'. k' \<noteq> k \<longrightarrow> rows w' k' = rows w k')
    \<and> ((\<forall>r \<in> set (rows w k). \<not> sql_eq (read_prop r ''id'') (VStr sessionId)) \<longrightarrow>
          rows w' = rows w)
    \<and> accepts w' = accepts w"
proof (intro conjI allI impI)
  show "length (rows w' k) = length (rows w k)"
    by (simp add: w'_def k_def updateSessionExpiration_rows)
next
  fix i assume i: "i < length (rows w k)"
    and m: "sql_eq (read_prop (rows w k ! i) ''id'') (VStr sessionId)"
  from i m have e: "rows w' k ! i = (rows w k ! i)(''expiresAt'' \<mapsto> t)"
    by (simp add: w'_def k_def updateSessionExpiration_rows)
  show "read_prop (rows w' k ! i) ''expiresAt'' = t"
    by (simp add: e read_prop_def)
  fix c :: string assume "c \<noteq> ''expiresAt''"
  then show "(rows w' k ! i) c = (rows w k ! i) c"
    by (simp add: e)
next
  fix i assume i: "i < length (rows w k)"
    and m: "\<not> sql_eq (read_prop (rows w k ! i) ''id'') (VStr sessionId)"
  then show "rows w' k ! i = rows w k ! i"
    by (simp add: w'_def k_def updateSessionExpiration_rows)
next
  fix k' assume "k' \<noteq> k"
  then show "rows w' k' = rows w k'"
    by (simp add: w'_def k_def updateSessionExpiration_rows)
next
  assume "\<forall>r \<in> set (rows w k). \<not> sql_eq (read_prop r ''id'') (VStr sessionId)"
  then have "map (\<lambda>r. if sql_eq (read_prop r ''id'') (VStr sessionId)
                       then r(''expiresAt'' \<mapsto> t) else r) (rows w k) = rows w k"
    by (rule map_unchanged)
  then show "rows w' = rows w"
    by (simp add: w'_def k_def updateSessionExpiration_rows)
next
  show "accepts w' = accepts w"
    by (simp add: w'_def updateSessionExpiration_def split: prod.splits)
qed

theorem updateSessionExpiration_frame_witness:
  "read_prop ((session1(''expiresAt'' \<mapsto> VDate 7000))) ''expiresAt'' = VDate 7000
   \<and> (session1(''expiresAt'' \<mapsto> VDate 7000)) ''id'' = session1 ''id''
   \<and> rows (updateSessionExpiration adapter0 ''s1'' (VDate 7000) None world0) (Some ''public'', ''session'') ! 1
       = session2
   \<and> rows (updateSessionExpiration adapter0 ''s1'' (VDate 7000) None world0) (Some ''tenant'', ''session'')
       = [session1]
   \<and> rows (updateSessionExpiration adapter0 ''s9'' (VDate 7000) None world0) = rows world0"
proof -
  note u = updateSessionExpiration_frame
      [where this = adapter0 and w = world0 and schema = None and sessionId = "''s1''"
         and t = "VDate 7000"]
  note v = updateSessionExpiration_frame
      [where this = adapter0 and w = world0 and schema = None and sessionId = "''s9''"
         and t = "VDate 7000"]
  from u have "rows (updateSessionExpiration adapter0 ''s1'' (VDate 7000) None world0) (Some ''tenant'', ''session'')
       = rows world0 (Some ''tenant'', ''session'')"
    by simp
  moreover from u have "1 < length (rows world0 (Some ''public'', ''session'')) \<longrightarrow>
     \<not> sql_eq (read_prop (rows world0 (Some ''public'', ''session'') ! 1) ''id'') (VStr ''s1'') \<longrightarrow>
     rows (updateSessionExpiration adapter0 ''s1'' (VDate 7000) None world0) (Some ''public'', ''session'') ! 1
       = rows world0 (Some ''public'', ''session'') ! 1"
    by simp
  moreover from v have "rows (updateSessionExpiration adapter0 ''s9'' (VDate 7000) None world0) = rows world0"
    by (simp add: sql_eq_def)
  moreover have "read_prop ((session1(''expiresAt'' \<mapsto> VDate 7000))) ''expiresAt'' = VDate 7000"
    by (simp add: read_prop_def)
  ultimately show ?thesis
    by (simp add: sql_eq_def)
qed

subsection \<open>Deleting the expired sessions\<close>

text \<open>
  C6. With \<open>now\<close> the time read at the call, \<^verbatim>\<open>deleteExpiredSessions\<close> keeps, in their order,
  exactly the rows of the session table that do not have a timestamp \<open>expiresAt \<le> now\<close>:
  a row with the timestamp \<open>e\<close> remains if and only if \<open>now < e\<close>. It adds no row and
  leaves every other table as it is.
\<close>

theorem deleteExpiredSessions_exact:
  fixes this now schema w
  defines "k \<equiv> sessionTarget this w schema"
    and "w' \<equiv> deleteExpiredSessions this now schema w"
  shows "rows w' k
           = filter (\<lambda>r. \<not> (\<exists>e. read_prop r ''expiresAt'' = VDate e \<and> e \<le> now)) (rows w k)
    \<and> (\<forall>r \<in> set (rows w k). \<forall>e. read_prop r ''expiresAt'' = VDate e \<longrightarrow>
          (r \<in> set (rows w' k) \<longleftrightarrow> now < e))
    \<and> set (rows w' k) \<subseteq> set (rows w k)
    \<and> (\<forall>k'. k' \<noteq> k \<longrightarrow> rows w' k' = rows w k')"
proof (intro conjI ballI allI impI)
  show f: "rows w' k
           = filter (\<lambda>r. \<not> (\<exists>e. read_prop r ''expiresAt'' = VDate e \<and> e \<le> now)) (rows w k)"
    by (simp add: w'_def k_def deleteExpiredSessions_rows)
  show "set (rows w' k) \<subseteq> set (rows w k)"
    by (simp add: f)
  fix r e assume "r \<in> set (rows w k)" and "read_prop r ''expiresAt'' = VDate e"
  then show "r \<in> set (rows w' k) \<longleftrightarrow> now < e"
    by (auto simp add: f)
next
  fix k' assume "k' \<noteq> k"
  then show "rows w' k' = rows w k'"
    by (simp add: w'_def k_def deleteExpiredSessions_rows)
qed

theorem deleteExpiredSessions_exact_witness:
  "rows (deleteExpiredSessions adapter0 1000 None world0) (Some ''public'', ''session'') = [session2]
   \<and> session1 \<notin> set (rows (deleteExpiredSessions adapter0 1000 None world0) (Some ''public'', ''session''))
   \<and> rows (deleteExpiredSessions adapter0 1000 None world0) (Some ''tenant'', ''session'') = [session1]"
  using deleteExpiredSessions_exact [where this = adapter0 and w = world0 and schema = None and now = 1000]
  by simp

subsection \<open>The sessions of a user\<close>

text \<open>
  C7. For a user id that is a value (neither null nor undefined), the sessions that
  \<^verbatim>\<open>getUserSessions\<close> returns are, as a multiset, one session for every row of the session
  table whose \<open>userId\<close> is the argument: its user id is the argument, its id and expiry
  are the columns \<open>id\<close> and \<open>expiresAt\<close> of the row, its attributes are the other columns
  of the row. Every session returned has the argument as its user id. A store that holds
  the same rows in another order gives the same multiset. When no row has that user id
  the result is the empty list. The call has no error among its results and leaves the
  rows of the store as they are.
\<close>

theorem getUserSessions_exact:
  fixes this userId schema w
  defines "k \<equiv> sessionTarget this w schema"
  assumes "userId \<noteq> VNull" and "userId \<noteq> VUndefined"
  shows "mset (snd (getUserSessions this userId schema w))
           = image_mset
               (\<lambda>r. \<lparr>s_userId = userId, s_expiresAt = read_prop r ''expiresAt'',
                      s_id = read_prop r ''id'',
                      s_attributes = r |` (- {''id'', ''userId'', ''expiresAt''})\<rparr>)
               (filter_mset (\<lambda>r. read_prop r ''userId'' = userId) (mset (rows w k)))
    \<and> (\<forall>s \<in> set (snd (getUserSessions this userId schema w)). s_userId s = userId)
    \<and> (\<forall>w2 :: world. tables w2 = tables w \<and> mset (rows w2 k) = mset (rows w k) \<longrightarrow>
          mset (snd (getUserSessions this userId schema w2))
            = mset (snd (getUserSessions this userId schema w)))
    \<and> ((\<forall>r \<in> set (rows w k). read_prop r ''userId'' \<noteq> userId) \<longrightarrow>
          snd (getUserSessions this userId schema w) = [])
    \<and> rows (fst (getUserSessions this userId schema w)) = rows w"
proof (intro conjI allI impI ballI)
  have m: "snd (getUserSessions this userId schema w) =
      map (\<lambda>r. \<lparr>s_userId = userId, s_expiresAt = read_prop r ''expiresAt'',
                  s_id = read_prop r ''id'',
                  s_attributes = r |` (- {''id'', ''userId'', ''expiresAt''})\<rparr>)
        (filter (\<lambda>r. read_prop r ''userId'' = userId) (rows w k))"
    using assms(2,3)
    by (simp add: getUserSessions_result k_def sql_eq_present transformIntoDatabaseSession_def)
  show "mset (snd (getUserSessions this userId schema w))
           = image_mset
               (\<lambda>r. \<lparr>s_userId = userId, s_expiresAt = read_prop r ''expiresAt'',
                      s_id = read_prop r ''id'',
                      s_attributes = r |` (- {''id'', ''userId'', ''expiresAt''})\<rparr>)
               (filter_mset (\<lambda>r. read_prop r ''userId'' = userId) (mset (rows w k)))"
    unfolding m by simp
  fix s assume "s \<in> set (snd (getUserSessions this userId schema w))"
  then show "s_userId s = userId"
    unfolding m by auto
next
  fix w2 :: world assume a: "tables w2 = tables w \<and> mset (rows w2 k) = mset (rows w k)"
  then have t: "sessionTarget this w2 schema = k"
    by (simp add: k_def sessionTarget_def)
  have "mset (filter (\<lambda>r. sql_eq (read_prop r ''userId'') userId) (rows w2 k))
      = mset (filter (\<lambda>r. sql_eq (read_prop r ''userId'') userId) (rows w k))"
    using a by simp
  then have "image_mset transformIntoDatabaseSession
               (mset (filter (\<lambda>r. sql_eq (read_prop r ''userId'') userId) (rows w2 k)))
      = image_mset transformIntoDatabaseSession
               (mset (filter (\<lambda>r. sql_eq (read_prop r ''userId'') userId) (rows w k)))"
    by (rule arg_cong)
  then show "mset (snd (getUserSessions this userId schema w2))
            = mset (snd (getUserSessions this userId schema w))"
    unfolding getUserSessions_result t k_def [symmetric] by (simp only: mset_map)
next
  assume "\<forall>r \<in> set (rows w k). read_prop r ''userId'' \<noteq> userId"
  then show "snd (getUserSessions this userId schema w) = []"
    using assms(2,3) by (simp add: getUserSessions_result k_def sql_eq_present filter_empty_conv)
next
  show "rows (fst (getUserSessions this userId schema w)) = rows w"
    by (rule rows_getUserSessions)
qed

theorem getUserSessions_exact_witness:
  "VStr ''u1'' \<noteq> VNull \<and> VStr ''u1'' \<noteq> VUndefined
   \<and> mset (snd (getUserSessions adapter0 (VStr ''u1'') None world0))
       = {#\<lparr>s_userId = VStr ''u1'', s_expiresAt = VDate 1000, s_id = VStr ''s1'',
             s_attributes = session1 |` (- {''id'', ''userId'', ''expiresAt''})\<rparr>,
           \<lparr>s_userId = VStr ''u1'', s_expiresAt = VDate 5000, s_id = VStr ''s2'',
             s_attributes = session2 |` (- {''id'', ''userId'', ''expiresAt''})\<rparr>#}
   \<and> snd (getUserSessions adapter0 (VStr ''u7'') None world0) = []"
proof -
  have h: "VStr ''u1'' \<noteq> VNull" "VStr ''u1'' \<noteq> VUndefined" "VStr ''u7'' \<noteq> VNull"
    "VStr ''u7'' \<noteq> VUndefined"
    by simp_all
  from getUserSessions_exact [OF h(1,2), where this = adapter0 and schema = None and w = world0]
  have a: "mset (snd (getUserSessions adapter0 (VStr ''u1'') None world0))
       = {#\<lparr>s_userId = VStr ''u1'', s_expiresAt = VDate 1000, s_id = VStr ''s1'',
             s_attributes = session1 |` (- {''id'', ''userId'', ''expiresAt''})\<rparr>,
           \<lparr>s_userId = VStr ''u1'', s_expiresAt = VDate 5000, s_id = VStr ''s2'',
             s_attributes = session2 |` (- {''id'', ''userId'', ''expiresAt''})\<rparr>#}"
    by simp
  from getUserSessions_exact [OF h(3,4), where this = adapter0 and schema = None and w = world0]
  have b: "snd (getUserSessions adapter0 (VStr ''u7'') None world0) = []"
    by simp
  from h a b show ?thesis by simp
qed

subsection \<open>Deleting a session\<close>

text \<open>
  C8. After \<^verbatim>\<open>deleteSession\<close> with an id, \<^verbatim>\<open>getSessionAndUser\<close> with that id and the same
  schema argument returns the pair of absent values, whether or not a row had the id.
  \<^verbatim>\<open>deleteSession\<close> keeps exactly the rows with another id and leaves the other tables as
  they are; when no row has the id the rows of the store are unchanged; when at most one
  row has the id (ids are unique) it removes at most one row. The call has no error among
  its results.
\<close>

theorem deleteSession_then_absent:
  fixes this sessionId schema w
  defines "k \<equiv> sessionTarget this w schema"
    and "w' \<equiv> deleteSession this sessionId schema w"
  shows "snd (getSessionAndUser this sessionId schema w') = (None, None)
    \<and> rows w' k = filter (\<lambda>r. read_prop r ''id'' \<noteq> VStr sessionId) (rows w k)
    \<and> (\<forall>k'. k' \<noteq> k \<longrightarrow> rows w' k' = rows w k')
    \<and> ((\<forall>r \<in> set (rows w k). read_prop r ''id'' \<noteq> VStr sessionId) \<longrightarrow> rows w' = rows w)
    \<and> (length (filter (\<lambda>r. read_prop r ''id'' = VStr sessionId) (rows w k)) \<le> 1 \<longrightarrow>
          length (rows w k) \<le> length (rows w' k) + 1)"
proof (intro conjI allI impI)
  have t: "sessionTarget this w' schema = k"
    unfolding k_def by (rule sessionTarget_again) (simp add: w'_def tables_deleteSession)
  show f: "rows w' k = filter (\<lambda>r. read_prop r ''id'' \<noteq> VStr sessionId) (rows w k)"
    by (simp add: w'_def k_def deleteSession_rows)
  have "\<forall>s \<in> set (rows w' k). \<not> sql_eq (read_prop s ''id'') (VStr sessionId)"
    by (simp add: f sql_eq_str)
  then have j: "[(s, u). s \<leftarrow> rows w' k, u \<leftarrow> rows w' (userTarget this w' schema),
               sql_eq (read_prop s ''userId'') (read_prop u ''id'')
               \<and> sql_eq (read_prop s ''id'') (VStr sessionId)] = []"
    by (rule join_no_session)
  show "snd (getSessionAndUser this sessionId schema w') = (None, None)"
    unfolding getSessionAndUser_case t j by simp
  show "length (rows w k) \<le> length (rows w' k) + 1"
    if "length (filter (\<lambda>r. read_prop r ''id'' = VStr sessionId) (rows w k)) \<le> 1"
  proof -
    have "length (rows w k) =
        length (filter (\<lambda>r. read_prop r ''id'' = VStr sessionId) (rows w k))
        + length (filter (\<lambda>r. \<not> read_prop r ''id'' = VStr sessionId) (rows w k))"
      by (rule sum_length_filter_compl [symmetric])
    with that show ?thesis by (simp add: f)
  qed
next
  fix k' assume "k' \<noteq> k"
  then show "rows w' k' = rows w k'"
    by (simp add: w'_def k_def deleteSession_rows)
next
  assume "\<forall>r \<in> set (rows w k). read_prop r ''id'' \<noteq> VStr sessionId"
  then have "filter (\<lambda>r. read_prop r ''id'' \<noteq> VStr sessionId) (rows w k) = rows w k"
    by (simp add: filter_id_conv)
  then show "rows w' = rows w"
    by (simp add: w'_def k_def deleteSession_rows)
qed

theorem deleteSession_then_absent_witness:
  "snd (getSessionAndUser adapter0 ''s1'' None (deleteSession adapter0 ''s1'' None world0)) = (None, None)
   \<and> snd (getSessionAndUser adapter0 ''s1'' None world0) \<noteq> (None, None)
   \<and> rows (deleteSession adapter0 ''s1'' None world0) (Some ''public'', ''session'') = [session2]
   \<and> length (rows world0 (Some ''public'', ''session''))
       \<le> length (rows (deleteSession adapter0 ''s1'' None world0) (Some ''public'', ''session'')) + 1
   \<and> rows (deleteSession adapter0 ''s9'' None world0) = rows world0"
proof -
  note u = deleteSession_then_absent
      [where this = adapter0 and w = world0 and schema = None and sessionId = "''s1''"]
  note v = deleteSession_then_absent
      [where this = adapter0 and w = world0 and schema = None and sessionId = "''s9''"]
  have a: "snd (getSessionAndUser adapter0 ''s1'' None world0) \<noteq> (None, None)"
    unfolding getSessionAndUser_case by (simp add: sql_eq_def)
  from v have b: "rows (deleteSession adapter0 ''s9'' None world0) = rows world0"
    by simp
  from u a b show ?thesis by simp
qed

subsection \<open>Reserved names are no attributes\<close>

text \<open>
  C9. The attributes of a session are the columns of its row without \<open>id\<close>, \<open>userId\<close> and
  \<open>expiresAt\<close>; the attributes of a user are the columns of its row without \<open>id\<close>. So no
  session that \<^verbatim>\<open>getUserSessions\<close> or \<^verbatim>\<open>getSessionAndUser\<close> returns has one of the three
  reserved names of a session among its attributes, and no user that \<^verbatim>\<open>getSessionAndUser\<close>
  returns has the reserved name of a user, \<open>id\<close>, among its attributes, whatever other
  columns the rows have.
\<close>

theorem outputs_exclude_reserved_keys:
  "(\<forall>s \<in> set (snd (getUserSessions this userId schema w)).
      dom (s_attributes s) \<inter> {''id'', ''userId'', ''expiresAt''} = {})
   \<and> (\<forall>s u. snd (getSessionAndUser this sessionId schema w) = (Some s, Some u) \<longrightarrow>
         dom (s_attributes s) \<inter> {''id'', ''userId'', ''expiresAt''} = {}
         \<and> ''id'' \<notin> dom (u_attributes u))
   \<and> dom (s_attributes (transformIntoDatabaseSession raw))
       = dom raw - {''id'', ''userId'', ''expiresAt''}
   \<and> dom (u_attributes (transformIntoDatabaseUser raw)) = dom raw - {''id''}"
proof (intro conjI ballI allI impI)
  fix s assume "s \<in> set (snd (getUserSessions this userId schema w))"
  then obtain rs where "s = transformIntoDatabaseSession rs"
    using getUserSessions_image by blast
  then show "dom (s_attributes s) \<inter> {''id'', ''userId'', ''expiresAt''} = {}"
    by (simp add: dom_session_attributes Int_commute)
next
  fix s u assume r: "snd (getSessionAndUser this sessionId schema w) = (Some s, Some u)"
  then obtain rs ru where e: "s = transformIntoDatabaseSession rs" "u = transformIntoDatabaseUser ru"
    using getSessionAndUser_Some by blast
  show "dom (s_attributes s) \<inter> {''id'', ''userId'', ''expiresAt''} = {}"
    by (simp add: e dom_session_attributes Int_commute)
  show "''id'' \<notin> dom (u_attributes u)"
    by (simp add: e dom_user_attributes)
next
  show "dom (s_attributes (transformIntoDatabaseSession raw))
       = dom raw - {''id'', ''userId'', ''expiresAt''}"
    by (rule dom_session_attributes)
next
  show "dom (u_attributes (transformIntoDatabaseUser raw)) = dom raw - {''id''}"
    by (rule dom_user_attributes)
qed

theorem outputs_exclude_reserved_keys_witness:
  "dom (s_attributes (transformIntoDatabaseSession session2)) \<inter> {''id'', ''userId'', ''expiresAt''} = {}
   \<and> ''id'' \<notin> dom (u_attributes (transformIntoDatabaseUser user1))
   \<and> dom (s_attributes (transformIntoDatabaseSession session2)) = {''ip''}
   \<and> dom (u_attributes (transformIntoDatabaseUser user1)) = {''name''}"
  using outputs_exclude_reserved_keys
      [where this = adapter0 and w = world0 and schema = None and sessionId = "''s2''"
         and userId = "VStr ''u1''" and raw = session2]
    outputs_exclude_reserved_keys
      [where this = adapter0 and w = world0 and schema = None and sessionId = "''s2''"
         and userId = "VStr ''u1''" and raw = user1]
  by (simp add: getUserSessions0 getSessionAndUser0) (auto simp add: session2_def user1_def)

subsection \<open>Attributes with a reserved name\<close>

text \<open>
  C10. The values \<^verbatim>\<open>setSession\<close> hands to the insert hold, under every name, the attribute
  of that name if the session has one, also under a reserved name, where the attribute
  replaces the named field of the session; under a reserved name without an attribute
  they hold the field of the session (\<open>id\<close>, \<open>userId\<close>, \<open>expiresAt\<close>); under any other name
  nothing. The row made of these values has one value for every column of the table, null
  where the values have none. When the store accepts that row, \<^verbatim>\<open>setSession\<close> succeeds,
  appends the row to the session table and leaves the other tables as they are; when the
  store rejects it, \<^verbatim>\<open>setSession\<close> fails with the error of the store and the rows are
  unchanged.
\<close>

theorem setSession_attributes_override:
  fixes this S schema w
  defines "k \<equiv> sessionTarget this w schema"
  defines "vals \<equiv> (\<lambda>c. case s_attributes S c of
                       Some v \<Rightarrow> Some v
                     | None \<Rightarrow> if c = ''id'' then Some (s_id S)
                               else if c = ''userId'' then Some (s_userId S)
                               else if c = ''expiresAt'' then Some (s_expiresAt S)
                               else None)"
  defines "row \<equiv> (\<lambda>c. if c \<in> set (columns w k)
                     then Some (case vals c of None \<Rightarrow> VNull
                                | Some v \<Rightarrow> if v = VUndefined then VNull else v)
                     else None)"
  shows "sessionValues S = vals
    \<and> (accepts w (rows w) k row \<longrightarrow>
         (\<exists>w'. setSession this S schema w = Inr w'
               \<and> rows w' k = rows w k @ [row]
               \<and> (\<forall>k'. k' \<noteq> k \<longrightarrow> rows w' k' = rows w k')))
    \<and> (\<not> accepts w (rows w) k row \<longrightarrow>
         (\<exists>w'. setSession this S schema w = Inl (ConstraintViolation, w')
               \<and> rows w' = rows w))"
proof (intro conjI impI)
  show v: "sessionValues S = vals"
    unfolding vals_def by (rule ext) (rule sessionValues_exact)
  have r: "stored_row (columns w k) (sessionValues S) = row"
    unfolding row_def v stored_row_def by (rule refl)
  show "\<exists>w'. setSession this S schema w = Inr w'
               \<and> rows w' k = rows w k @ [row]
               \<and> (\<forall>k'. k' \<noteq> k \<longrightarrow> rows w' k' = rows w k')"
    if "accepts w (rows w) k row"
  proof -
    from that have "setSession this S schema w =
        Inr (w\<lparr>tables := fst (getSessionTable this (tables w) schema),
               rows := (rows w)(k := rows w k @ [row])\<rparr>)"
      unfolding r [symmetric] k_def by (rule setSession_accepted)
    then show ?thesis by simp
  qed
  show "\<exists>w'. setSession this S schema w = Inl (ConstraintViolation, w') \<and> rows w' = rows w"
    if "\<not> accepts w (rows w) k row"
  proof -
    from that have "setSession this S schema w =
        Inl (ConstraintViolation, w\<lparr>tables := fst (getSessionTable this (tables w) schema)\<rparr>)"
      unfolding r [symmetric] k_def by (rule setSession_rejected)
    then show ?thesis by simp
  qed
qed

theorem setSession_attributes_override_witness:
  "s_id session_evil = VStr ''s3''
   \<and> (\<exists>w'. setSession adapter0 session_evil None world0 = Inr w'
          \<and> rows w' (Some ''public'', ''session'')
              = [session1, session2,
                 [''id'' \<mapsto> VStr ''s7'', ''userId'' \<mapsto> VStr ''u1'', ''expiresAt'' \<mapsto> VDate 9000,
                  ''ip'' \<mapsto> VNull]])
   \<and> (\<exists>w'. setSession adapter0 session_clash None world0 = Inl (ConstraintViolation, w')
          \<and> rows w' = rows world0)"
proof -
  have e: "(\<lambda>c. if c \<in> set (columns world0 (sessionTarget adapter0 world0 None))
            then Some (case (case s_attributes session_evil c of
                               Some v \<Rightarrow> Some v
                             | None \<Rightarrow> if c = ''id'' then Some (s_id session_evil)
                                       else if c = ''userId'' then Some (s_userId session_evil)
                                       else if c = ''expiresAt'' then Some (s_expiresAt session_evil)
                                       else None) of
                         None \<Rightarrow> VNull
                       | Some v \<Rightarrow> if v = VUndefined then VNull else v)
            else None)
     = [''id'' \<mapsto> VStr ''s7'', ''userId'' \<mapsto> VStr ''u1'', ''expiresAt'' \<mapsto> VDate 9000,
        ''ip'' \<mapsto> VNull]"
    by (rule ext) (simp add: session_evil_def)
  have c: "(\<lambda>c. if c \<in> set (columns world0 (sessionTarget adapter0 world0 None))
            then Some (case (case s_attributes session_clash c of
                               Some v \<Rightarrow> Some v
                             | None \<Rightarrow> if c = ''id'' then Some (s_id session_clash)
                                       else if c = ''userId'' then Some (s_userId session_clash)
                                       else if c = ''expiresAt'' then Some (s_expiresAt session_clash)
                                       else None) of
                         None \<Rightarrow> VNull
                       | Some v \<Rightarrow> if v = VUndefined then VNull else v)
            else None)
     = [''id'' \<mapsto> VStr ''s1'', ''userId'' \<mapsto> VStr ''u1'', ''expiresAt'' \<mapsto> VDate 9000,
        ''ip'' \<mapsto> VNull]"
    by (rule ext) (simp add: session_clash_def)
  have a: "s_id session_evil = VStr ''s3''"
    by (simp add: session_evil_def)
  have p: "read_prop [''id'' \<mapsto> VStr ''s7'', ''userId'' \<mapsto> VStr ''u1'',
                      ''expiresAt'' \<mapsto> VDate 9000, ''ip'' \<mapsto> VNull] ''id'' = VStr ''s7''"
    "read_prop [''id'' \<mapsto> VStr ''s1'', ''userId'' \<mapsto> VStr ''u1'',
                ''expiresAt'' \<mapsto> VDate 9000, ''ip'' \<mapsto> VNull] ''id'' = VStr ''s1''"
    by (simp_all add: read_prop_def)
  from setSession_attributes_override
      [where S = session_evil and this = adapter0 and w = world0 and schema = None]
  have b: "\<exists>w'. setSession adapter0 session_evil None world0 = Inr w'
          \<and> rows w' (Some ''public'', ''session'')
              = [session1, session2,
                 [''id'' \<mapsto> VStr ''s7'', ''userId'' \<mapsto> VStr ''u1'', ''expiresAt'' \<mapsto> VDate 9000,
                  ''ip'' \<mapsto> VNull]]"
    unfolding e by (simp add: primary_key_def sql_eq_def p) blast
  from setSession_attributes_override
      [where S = session_clash and this = adapter0 and w = world0 and schema = None]
  have d: "\<exists>w'. setSession adapter0 session_clash None world0 = Inl (ConstraintViolation, w')
          \<and> rows w' = rows world0"
    unfolding c by (simp add: primary_key_def sql_eq_def p)
  from a b d show ?thesis by blast
qed

end
